theory Spec2Isabelle
  imports Complex_Main "HOL-Library.Multiset" "HOL-Library.Char_ord" "HOL-Library.List_Lexorder"
    "HOL-Library.Product_Lexorder"
begin

section \<open>Python values and exceptions\<close>

text \<open>
  The exceptions the modelled code can raise. A function of the source that can raise
  returns \<open>pyerror + 'a\<close>, with \<open>Inl\<close> for the exception. The last four are the
  ways a request of the \<open>requests\<close> library fails: no connection, the 10 second
  timeout, a status that \<open>raise_for_status\<close> refuses, and a body that is not JSON.
\<close>

datatype pyerror =
    TypeError | KeyError | AttributeError | ZeroDivisionError | OverflowError
  | ConnectionError | Timeout | HTTPError | JSONDecodeError | ValueError

text \<open>
  The values a rank cell can hold in \<open>main.py\<close>: \<open>None\<close> (a dictionary miss of
  \<open>prev_ranks.get(user)\<close> or of \<open>prof.get("ranking")\<close>), an integer (the remote
  ranking) or a string (the marker \<open>"N/A"\<close>).
\<close>

datatype pyval = PNone | PInt int | PStr string

text \<open>
  A parsed JSON document. Numbers are the integers: the counts of the remote API.
  An object is the list of its items in order, with distinct keys.
\<close>

datatype json =
    JNull | JBool bool | JInt int | JStr string | JArr "json list" | JObj "(string \<times> json) list"

text \<open>What the interface shows: \<open>st.success\<close>, \<open>st.warning\<close>, \<open>st.error\<close>,
  \<open>st.info\<close>. The two error texts built from an exception keep the username and the
  exception: \<open>f"Profile error ({username}): {e}"\<close> and \<open>f"Skill error ({username}): {e}"\<close>.\<close>

datatype message =
    Success string | Warning string | Error string | Info string
  | Profile_error string pyerror | Skill_error string pyerror

subsection \<open>Formatting an integer, as an f-string does\<close>

definition digit_char :: "nat \<Rightarrow> char" where
  "digit_char d = ''0123456789'' ! d"

fun str_nat :: "nat \<Rightarrow> string" where
  "str_nat n = (if n < 10 then [digit_char n] else str_nat (n div 10) @ [digit_char (n mod 10)])"

declare str_nat.simps [simp del]

definition str_int :: "int \<Rightarrow> string" where
  "str_int i = (if i < 0 then CHR ''-'' # str_nat (nat (- i)) else str_nat (nat i))"

subsection \<open>String methods\<close>

text \<open>
  \<open>str.strip\<close> and \<open>str.capitalize\<close>. A string is the list of its characters, each
  a code point below 256. White space is what \<open>str.isspace\<close> accepts there: the codes
  9 to 13, 28 to 32, 133 and 160. \<open>capitalize\<close> is the method on ASCII text: a
  character outside ASCII is left as it is.
\<close>

definition is_space :: "char \<Rightarrow> bool" where
  "is_space c =
     (let n = (of_char c :: nat)
      in (9 \<le> n \<and> n \<le> 13) \<or> (28 \<le> n \<and> n \<le> 32) \<or> n = 133 \<or> n = 160)"

definition strip :: "string \<Rightarrow> string" where
  "strip s = rev (dropWhile is_space (rev (dropWhile is_space s)))"

definition upper_char :: "char \<Rightarrow> char" where
  "upper_char c = (let n = (of_char c :: nat) in if 97 \<le> n \<and> n \<le> 122 then char_of (n - 32) else c)"

definition lower_char :: "char \<Rightarrow> char" where
  "lower_char c = (let n = (of_char c :: nat) in if 65 \<le> n \<and> n \<le> 90 then char_of (n + 32) else c)"

fun capitalize :: "string \<Rightarrow> string" where
  "capitalize [] = []"
| "capitalize (c # cs) = upper_char c # map lower_char cs"

subsection \<open>Python floats\<close>

text \<open>
  A Python \<open>float\<close> is an IEEE 754 binary64 number. A finite one is modelled by its
  exact rational value (the two zeros are one value); \<open>nan\<close> does not arise from the
  operations below on integers. \<open>binary64 q\<close> is the float nearest to the rational
  \<open>q\<close>, ties to the even significand: 53 significant bits, the least exponent
  \<open>-1074\<close> (subnormal numbers), and infinity from \<open>2 ^ 1024\<close> on.
\<close>

datatype pyfloat = Finite rat | PosInf | NegInf

definition pow2 :: "int \<Rightarrow> rat" where
  "pow2 k = (if 0 \<le> k then 2 ^ nat k else 1 / 2 ^ nat (- k))"

function bit_length :: "int \<Rightarrow> int" where
  "bit_length n = (if n \<le> 0 then 0 else 1 + bit_length (n div 2))"
  by pat_completeness auto
termination
  by (relation "measure nat") auto

declare bit_length.simps [simp del]

text \<open>The exponent of a positive rational: the \<open>e\<close> with \<open>2 ^ e \<le> q < 2 ^ (e + 1)\<close>.\<close>

definition floor_log2 :: "rat \<Rightarrow> int" where
  "floor_log2 q =
     (let (n, d) = quotient_of q;
          k = bit_length n - bit_length d
      in if pow2 k \<le> q then k else k - 1)"

definition round_half_even :: "rat \<Rightarrow> int" where
  "round_half_even q =
     (let f = \<lfloor>q\<rfloor>; r = q - of_int f
      in if r < 1 / 2 then f else if 1 / 2 < r then f + 1 else if even f then f else f + 1)"

definition binary64 :: "rat \<Rightarrow> pyfloat" where
  "binary64 q =
     (if q = 0 then Finite 0
      else let a = \<bar>q\<bar>;
               e = floor_log2 a;
               u = pow2 (max (e - 52) (- 1074));
               r = of_int (round_half_even (a / u)) * u
           in if pow2 1024 \<le> r then (if 0 < q then PosInf else NegInf)
              else Finite (if 0 < q then r else - r))"

text \<open>
  The three float operations of \<open>round(a["submissions"] / sub * 100, 2)\<close>.
  \<^item> \<open>/\<close> between two integers (a \<open>bool\<close> is the integer 0 or 1) gives the
    correctly rounded quotient, \<open>ZeroDivisionError\<close> for a zero divisor and
    \<open>OverflowError\<close> when the quotient is too large for a float; any other operand
    type is a \<open>TypeError\<close>.
  \<^item> \<open>* 100\<close> is the IEEE product, which overflows to infinity silently.
  \<^item> \<open>round(x, 2)\<close> rounds the exact value of \<open>x\<close> to two decimals, ties to even,
    and returns the float nearest to that decimal; an infinity is returned as it is.
\<close>

fun as_int :: "json \<Rightarrow> int option" where
  "as_int (JInt n) = Some n"
| "as_int (JBool b) = Some (if b then 1 else 0)"
| "as_int _ = None"

definition py_truediv :: "json \<Rightarrow> json \<Rightarrow> pyerror + pyfloat" where
  "py_truediv a b =
     (case (as_int a, as_int b) of
        (Some x, Some y) \<Rightarrow>
          if y = 0 then Inl ZeroDivisionError
          else (case binary64 (of_int x / of_int y) of
                  Finite r \<Rightarrow> Inr (Finite r)
                | _ \<Rightarrow> Inl OverflowError)
      | _ \<Rightarrow> Inl TypeError)"

definition py_mul_100 :: "pyfloat \<Rightarrow> pyfloat" where
  "py_mul_100 x = (case x of Finite r \<Rightarrow> binary64 (r * 100) | PosInf \<Rightarrow> PosInf | NegInf \<Rightarrow> NegInf)"

definition py_round2 :: "pyfloat \<Rightarrow> pyerror + pyfloat" where
  "py_round2 x =
     (case x of
        Finite r \<Rightarrow>
          (case binary64 (of_int (round_half_even (r * 100)) / 100) of
             Finite y \<Rightarrow> Inr (Finite y)
           | _ \<Rightarrow> Inl OverflowError)
      | PosInf \<Rightarrow> Inr PosInf
      | NegInf \<Rightarrow> Inr NegInf)"

section \<open>Configuration\<close>

definition CACHE_TTL :: nat where
  "CACHE_TTL = 1800"

definition LEVEL_ORDER :: "string \<rightharpoonup> nat" where
  "LEVEL_ORDER = map_of [(''Advanced'', 0), (''Intermediate'', 1), (''Fundamental'', 2)]"

section \<open>The tracked-user store\<close>

text \<open>
  The file \<open>tracked_users.csv\<close> is text: the list of its rows \<open>(username, added_at)\<close>,
  or \<open>None\<close> while the file does not exist.
  \<^verbatim>\<open>
  def init_csv():
      if not os.path.exists(CSV_FILE):
          pd.DataFrame(columns=["username", "added_at"]).to_csv(CSV_FILE, index=False)
  def load_users() -> pd.DataFrame:
      init_csv()
      df = pd.read_csv(CSV_FILE)
      ...
      return df
  def save_users(df):
      df.to_csv(CSV_FILE, index=False)
  def add_user(username: str) -> bool:
      df = load_users()
      username = username.strip()
      if username and username not in df["username"].values:
          new_row = pd.DataFrame([{"username": username, "added_at": pd.Timestamp.now()}])
          df = pd.concat([df, new_row], ignore_index=True)
          save_users(df)
          return True
      return False
  def remove_user(username: str):
      df = load_users()
      df = df[df["username"] != username]
      save_users(df)
  \<close>
  \<open>pd.read_csv\<close> does not return the texts of a column: it infers a type for the
  column, so that a text is read as a string or as a value that is not a string (a
  number, a boolean, the missing value \<open>NaN\<close>). The inference is the library's and is
  a parameter here: \<open>read_csv\<close> takes the texts of the column \<open>username\<close> and
  returns its cells. A cell that is not a string carries the text that \<open>to_csv\<close>
  writes for it. The test \<open>username not in df["username"].values\<close> compares a string
  with every cell, and only a string cell can equal it.

  Every function takes the file and returns it with its result; \<open>add_user\<close> also
  takes the time \<open>pd.Timestamp.now()\<close> reads.
\<close>

datatype cell = Str string | NonStr string

fun to_text :: "cell \<Rightarrow> string" where
  "to_text (Str s) = s"
| "to_text (NonStr s) = s"

type_synonym timestamp = nat
type_synonym users_df = "(cell \<times> timestamp) list"
type_synonym csv_file = "(string \<times> timestamp) list option"

definition init_csv :: "csv_file \<Rightarrow> csv_file" where
  "init_csv file = (case file of None \<Rightarrow> Some [] | Some lines \<Rightarrow> Some lines)"

definition load_users :: "(string list \<Rightarrow> cell list) \<Rightarrow> csv_file \<Rightarrow> users_df \<times> csv_file" where
  "load_users read_csv file =
     (case init_csv file of
        None \<Rightarrow> ([], Some [])
      | Some lines \<Rightarrow> (zip (read_csv (map fst lines)) (map snd lines), Some lines))"

definition save_users :: "users_df \<Rightarrow> csv_file" where
  "save_users df = Some (map (\<lambda>line. (to_text (fst line), snd line)) df)"

definition add_user :: "(string list \<Rightarrow> cell list) \<Rightarrow> string \<Rightarrow> timestamp \<Rightarrow> csv_file \<Rightarrow> bool \<times> csv_file" where
  "add_user read_csv username now file =
     (let (df, file1) = load_users read_csv file;
          username = strip username
      in if username \<noteq> [] \<and> Str username \<notin> set (map fst df)
         then (True, save_users (df @ [(Str username, now)]))
         else (False, file1))"

definition remove_user :: "(string list \<Rightarrow> cell list) \<Rightarrow> string \<Rightarrow> csv_file \<Rightarrow> csv_file" where
  "remove_user read_csv username file =
     (let (df, file1) = load_users read_csv file
      in save_users (filter (\<lambda>line. fst line \<noteq> Str username) df))"

section \<open>API calls\<close>

subsection \<open>The profile fetcher\<close>

text \<open>
  The JSON object of the profile endpoint, by the keys \<open>main.py\<close> reads: a key is
  absent (\<open>None\<close>) or holds a value of the data model's type. \<open>other_keys\<close> lists
  the remaining keys, which the code never reads; they count when the object is tested
  for emptiness. The network is a parameter: the response is the parsed body, or the
  exception that \<open>requests.get\<close>, \<open>raise_for_status\<close> or \<open>r.json\<close> raises.
  \<^verbatim>\<open>
  def get_profile(username: str) -> dict | None:
      try:
          r = requests.get(f"{BASE}/userProfile/{username}", timeout=10)
          r.raise_for_status()
          return r.json()
      except Exception as e:
          st.error(f"Profile error ({username}): {e}")
          return None
  \<close>
  The function returns its value and what it shows.
\<close>

record profile =
  totalSolved :: "int option"
  easySolved :: "int option"
  mediumSolved :: "int option"
  hardSolved :: "int option"
  ranking :: "pyval option"
  matchedUserStats :: "json option"
  other_keys :: "string list"

definition get_profile :: "string \<Rightarrow> pyerror + profile \<Rightarrow> profile option \<times> message list" where
  "get_profile username response =
     (case response of
        Inr body \<Rightarrow> (Some body, [])
      | Inl e \<Rightarrow> (None, [Profile_error username e]))"

subsection \<open>The accuracy calculator\<close>

text \<open>
  \<^verbatim>\<open>
  def compute_accuracy(profile: dict) -> float:
      try:
          ac = profile["matchedUserStats"]["acSubmissionNum"]
          total = profile["matchedUserStats"]["totalSubmissionNum"]
          for a, t in zip(ac, total):
              if a["difficulty"] == "All":
                  sub = t["submissions"]
                  return round(a["submissions"] / sub * 100, 2) if sub else 0.0
      except Exception:
          pass
      return 0.0
  \<close>
  Subscripting with a string key works on an object only (\<open>KeyError\<close> for a missing
  key, \<open>TypeError\<close> on every other value); \<open>zip\<close> iterates a list by its elements,
  a string by its characters and an object by its keys, and raises \<open>TypeError\<close> on the
  rest. \<open>accuracy_body\<close> is the body of the \<open>try\<close>: an exception, a value returned
  inside the loop, or \<open>None\<close> when the loop ends without returning.
\<close>

fun subscript :: "json \<Rightarrow> string \<Rightarrow> pyerror + json" where
  "subscript (JObj kvs) k = (case map_of kvs k of None \<Rightarrow> Inl KeyError | Some v \<Rightarrow> Inr v)"
| "subscript _ k = Inl TypeError"

fun py_iter :: "json \<Rightarrow> pyerror + json list" where
  "py_iter (JArr xs) = Inr xs"
| "py_iter (JStr s) = Inr (map (\<lambda>c. JStr [c]) s)"
| "py_iter (JObj kvs) = Inr (map (\<lambda>kv. JStr (fst kv)) kvs)"
| "py_iter _ = Inl TypeError"

fun truthy :: "json \<Rightarrow> bool" where
  "truthy JNull = False"
| "truthy (JBool b) = b"
| "truthy (JInt n) = (n \<noteq> 0)"
| "truthy (JStr s) = (s \<noteq> [])"
| "truthy (JArr xs) = (xs \<noteq> [])"
| "truthy (JObj kvs) = (kvs \<noteq> [])"

fun scan_buckets :: "(json \<times> json) list \<Rightarrow> pyerror + pyfloat option" where
  "scan_buckets [] = Inr None"
| "scan_buckets ((a, t) # rest) =
     (case subscript a ''difficulty'' of
        Inl e \<Rightarrow> Inl e
      | Inr d \<Rightarrow>
          if d = JStr ''All'' then
            (case subscript t ''submissions'' of
               Inl e \<Rightarrow> Inl e
             | Inr sub \<Rightarrow>
                 if truthy sub then
                   (case subscript a ''submissions'' of
                      Inl e \<Rightarrow> Inl e
                    | Inr acs \<Rightarrow>
                        (case py_truediv acs sub of
                           Inl e \<Rightarrow> Inl e
                         | Inr q \<Rightarrow>
                             (case py_round2 (py_mul_100 q) of
                                Inl e \<Rightarrow> Inl e
                              | Inr r \<Rightarrow> Inr (Some r))))
                 else Inr (Some (Finite 0)))
          else scan_buckets rest)"

definition accuracy_body :: "profile \<Rightarrow> pyerror + pyfloat option" where
  "accuracy_body prof =
     (case matchedUserStats prof of
        None \<Rightarrow> Inl KeyError
      | Some stats \<Rightarrow>
          (case subscript stats ''acSubmissionNum'' of
             Inl e \<Rightarrow> Inl e
           | Inr ac \<Rightarrow>
               (case subscript stats ''totalSubmissionNum'' of
                  Inl e \<Rightarrow> Inl e
                | Inr tot \<Rightarrow>
                    (case py_iter ac of
                       Inl e \<Rightarrow> Inl e
                     | Inr acs \<Rightarrow>
                         (case py_iter tot of
                            Inl e \<Rightarrow> Inl e
                          | Inr tots \<Rightarrow> scan_buckets (zip acs tots))))))"

definition compute_accuracy :: "profile \<Rightarrow> pyfloat" where
  "compute_accuracy prof =
     (case accuracy_body prof of
        Inr (Some r) \<Rightarrow> r
      | Inr None \<Rightarrow> Finite 0
      | Inl e \<Rightarrow> Finite 0)"

subsection \<open>The skill fetcher\<close>

text \<open>
  The body of the skill endpoint, by what \<open>get_skill_table\<close> tests: the document is
  an object or not (\<open>data.items()\<close> raises \<open>AttributeError\<close> on anything else), a
  value of it is a list or not (\<open>isinstance(skills, list)\<close>), an element of the list
  is an object or not (\<open>s.get\<close> raises \<open>AttributeError\<close> on anything else), and
  the keys \<open>tagName\<close> and \<open>problemsSolved\<close> are present or absent.
  \<^verbatim>\<open>
  def get_skill_table(username: str) -> pd.DataFrame:
      try:
          r = requests.get(f"{BASE}/{username}/skill", timeout=10)
          r.raise_for_status()
          data = r.json()
          records = []
          for level_raw, skills in data.items():
              level = level_raw.capitalize()
              if level not in LEVEL_ORDER:
                  level = "Fundamental"  # fallback
              if isinstance(skills, list):
                  for s in skills:
                      records.append({
                          "Level": level,
                          "Skill": s.get("tagName", "Unknown"),
                          "Problems Solved": s.get("problemsSolved", 0),
                          "Username": username,
                          "_sort": LEVEL_ORDER.get(level, 2)
                      })
          df = pd.DataFrame(records)
          if df.empty:
              return pd.DataFrame()
          df = df.sort_values(["_sort", "Problems Solved"], ascending=[True, False])
          return df.drop(columns=["_sort"])
      except Exception as e:
          st.error(f"Skill error ({username}): {e}")
          return pd.DataFrame()
  \<close>
  A table is the list of its rows. \<open>sort_values\<close> is the library's sort of the table
  by the columns \<open>_sort\<close> (ascending) and \<open>Problems Solved\<close> (descending); it is a
  parameter, and the properties below assume of it what the library documents: the
  result holds the same rows, in the order of the keys.
\<close>

datatype skill_entry = Entry "string option" "int option" | NotADict
datatype skill_bucket = SkillList "skill_entry list" | NotAList
datatype skill_data = SkillObj "(string \<times> skill_bucket) list" | NotAnObject

record skill_row =
  Level :: string
  Skill :: string
  Problems_Solved :: int
  Username' :: string

record skill_rec = skill_row +
  sort_col :: nat

definition normalize_level :: "string \<Rightarrow> string" where
  "normalize_level level_raw =
     (let level = capitalize level_raw
      in if LEVEL_ORDER level = None then ''Fundamental'' else level)"

fun bucket_records :: "string \<Rightarrow> string \<Rightarrow> skill_entry list \<Rightarrow> pyerror + skill_rec list" where
  "bucket_records username level [] = Inr []"
| "bucket_records username level (NotADict # ss) = Inl AttributeError"
| "bucket_records username level (Entry tag solved # ss) =
     (case bucket_records username level ss of
        Inl e \<Rightarrow> Inl e
      | Inr recs \<Rightarrow>
          Inr (\<lparr>Level = level,
                Skill = (case tag of None \<Rightarrow> ''Unknown'' | Some t \<Rightarrow> t),
                Problems_Solved = (case solved of None \<Rightarrow> 0 | Some n \<Rightarrow> n),
                Username' = username,
                sort_col = (case LEVEL_ORDER level of None \<Rightarrow> 2 | Some k \<Rightarrow> k)\<rparr> # recs))"

fun data_records :: "string \<Rightarrow> (string \<times> skill_bucket) list \<Rightarrow> pyerror + skill_rec list" where
  "data_records username [] = Inr []"
| "data_records username ((level_raw, skills) # rest) =
     (case skills of
        NotAList \<Rightarrow> data_records username rest
      | SkillList ss \<Rightarrow>
          (case bucket_records username (normalize_level level_raw) ss of
             Inl e \<Rightarrow> Inl e
           | Inr recs \<Rightarrow>
               (case data_records username rest of
                  Inl e \<Rightarrow> Inl e
                | Inr recs' \<Rightarrow> Inr (recs @ recs'))))"

definition skill_records :: "string \<Rightarrow> pyerror + skill_data \<Rightarrow> pyerror + skill_rec list" where
  "skill_records username response =
     (case response of
        Inl e \<Rightarrow> Inl e
      | Inr NotAnObject \<Rightarrow> Inl AttributeError
      | Inr (SkillObj items) \<Rightarrow> data_records username items)"

definition get_skill_table ::
  "(skill_rec list \<Rightarrow> skill_rec list) \<Rightarrow> string \<Rightarrow> pyerror + skill_data \<Rightarrow> skill_row list \<times> message list" where
  "get_skill_table sort_values username response =
     (case skill_records username response of
        Inl e \<Rightarrow> ([], [Skill_error username e])
      | Inr records \<Rightarrow>
          if records = [] then ([], [])
          else (map skill_row.truncate (sort_values records), []))"

subsection \<open>The rank-delta calculator\<close>

text \<open>
  \<^verbatim>\<open>
  def rank_change(old, new):
      if pd.isna(old) or old == "N/A":
          return ""
      diff = old - new
      if diff > 0:
          return f"Up {diff}"
      if diff < 0:
          return f"Down {-diff}"
      return "No change"
  \<close>
  \<open>pd.isna\<close> is true of \<open>None\<close> and false of an integer and of a string. The
  subtraction \<open>old - new\<close> is defined between two integers only: with a string or
  \<open>None\<close> on either side Python raises \<open>TypeError\<close>.
\<close>

definition pd_isna :: "pyval \<Rightarrow> bool" where
  "pd_isna v = (v = PNone)"

fun py_sub :: "pyval \<Rightarrow> pyval \<Rightarrow> pyerror + int" where
  "py_sub (PInt a) (PInt b) = Inr (a - b)"
| "py_sub _ _ = Inl TypeError"

definition rank_change :: "pyval \<Rightarrow> pyval \<Rightarrow> pyerror + string" where
  "rank_change old new =
     (if pd_isna old \<or> old = PStr ''N/A'' then Inr ''''
      else case py_sub old new of
             Inl e \<Rightarrow> Inl e
           | Inr diff \<Rightarrow>
               if diff > 0 then Inr (''Up '' @ str_int diff)
               else if diff < 0 then Inr (''Down '' @ str_int (- diff))
               else Inr ''No change'')"

subsection \<open>The cache of the two fetchers\<close>

text \<open>
  Modelled from the spec: the decorator \<open>@st.cache_data(ttl=CACHE_TTL, show_spinner=False)\<close>
  on \<open>get_profile\<close> and \<open>get_skill_table\<close>, and \<open>st.cache_data.clear()\<close>, whose
  code is not part of \<open>main.py\<close>. The spec: the result is cached by username with a
  time-to-live of 1800 seconds, the duration after which a cached value is stale and is
  fetched again; a call within the time-to-live returns the cached value without a new
  network call; the cache is cleared in bulk by the action "Refresh All".

  A cache maps a username to the value stored and the time it was stored at. A call
  returns the value, whether the decorated function ran (which is when the network is
  queried), and the cache after the call. Time is in seconds.
\<close>

type_synonym 'v cache = "string \<rightharpoonup> 'v \<times> nat"

definition cache_data :: "nat \<Rightarrow> (string \<Rightarrow> 'v) \<Rightarrow> nat \<Rightarrow> string \<Rightarrow> 'v cache \<Rightarrow> 'v \<times> bool \<times> 'v cache" where
  "cache_data ttl f now key cache =
     (case cache key of
        Some (v, t) \<Rightarrow>
          if now \<le> t + ttl then (v, False, cache)
          else (f key, True, cache(key \<mapsto> (f key, now)))
      | None \<Rightarrow> (f key, True, cache(key \<mapsto> (f key, now))))"

text \<open>
  The two decorated functions. The remote API is a parameter: what it answers to a
  request for a username made at a time.
\<close>

definition cached_get_profile ::
  "(nat \<Rightarrow> string \<Rightarrow> pyerror + profile) \<Rightarrow> nat \<Rightarrow> string \<Rightarrow> (profile option \<times> message list) cache
     \<Rightarrow> (profile option \<times> message list) \<times> bool \<times> (profile option \<times> message list) cache" where
  "cached_get_profile api now username cache =
     cache_data CACHE_TTL (\<lambda>u. get_profile u (api now u)) now username cache"

definition cached_get_skill_table ::
  "(skill_rec list \<Rightarrow> skill_rec list) \<Rightarrow> (nat \<Rightarrow> string \<Rightarrow> pyerror + skill_data) \<Rightarrow> nat \<Rightarrow> string
     \<Rightarrow> (skill_row list \<times> message list) cache
     \<Rightarrow> (skill_row list \<times> message list) \<times> bool \<times> (skill_row list \<times> message list) cache" where
  "cached_get_skill_table sort_values api now username cache =
     cache_data CACHE_TTL (\<lambda>u. get_skill_table sort_values u (api now u)) now username cache"

text \<open>
  The state that outlives a run of the script: the two caches and
  \<open>st.session_state.prev_ranks\<close>.
  \<^verbatim>\<open>
  if st.sidebar.button("Refresh All (clear cache)"):
      st.cache_data.clear()
      st.session_state.prev_ranks = {}
      st.rerun()
  \<close>
\<close>

record session =
  profile_cache :: "(profile option \<times> message list) cache"
  skill_cache :: "(skill_row list \<times> message list) cache"
  session_prev_ranks :: "string \<rightharpoonup> pyval"

definition refresh_all_clicked :: "session \<Rightarrow> session" where
  "refresh_all_clicked s =
     s\<lparr>profile_cache := Map.empty, skill_cache := Map.empty, session_prev_ranks := Map.empty\<rparr>"

text \<open>
  A sequence of calls of a cached function, each at its time and for its username:
  the results in order, each with whether the function ran, and the cache after the
  last call. \<open>body now\<close> is the decorated function as it runs at the time \<open>now\<close>.
\<close>

fun cached_calls ::
  "(nat \<Rightarrow> string \<Rightarrow> 'v) \<Rightarrow> (nat \<times> string) list \<Rightarrow> 'v cache \<Rightarrow> ('v \<times> bool) list \<times> 'v cache" where
  "cached_calls body [] cache = ([], cache)"
| "cached_calls body ((now, username) # calls) cache =
     (let (v, fired, cache1) = cache_data CACHE_TTL (body now) now username cache;
          (results, cache2) = cached_calls body calls cache1
      in ((v, fired) # results, cache2))"

section \<open>The pipeline run\<close>

subsection \<open>Fetching every tracked user\<close>

text \<open>
  \<^verbatim>\<open>
  rows, skill_dfs = [], []
  for i, user in enumerate(usernames):
      progress.progress((i + 1) / len(usernames))
      with st.spinner(f"Fetching {user}..."):
          prof = get_profile(user)
          if prof:
              rows.append({
                  "Username": user,
                  "Total Solved": prof.get("totalSolved", 0),
                  "Easy": prof.get("easySolved", 0),
                  "Medium": prof.get("mediumSolved", 0),
                  "Hard": prof.get("hardSolved", 0),
                  "Accuracy %": compute_accuracy(prof),
                  "Rank": prof.get("ranking", "N/A"),
                  "Rank Delta": rank_change(st.session_state.prev_ranks.get(user), prof.get("ranking")),
              })
              skill_dfs.append(get_skill_table(user))
          st.session_state.prev_ranks[user] = prof.get("ranking") if prof else "N/A"
  \<close>
  \<open>get_prof\<close> and \<open>get_skills\<close> are the calls \<open>get_profile(user)\<close> and
  \<open>get_skill_table(user)\<close> as this run sees them, with what they show. A profile is
  false when it is \<open>None\<close> or the empty object. An exception of \<open>rank_change\<close> is
  not caught: it ends the run.
\<close>

record row =
  Username :: string
  Total_Solved :: int
  Easy :: int
  Medium :: int
  Hard :: int
  Accuracy :: pyfloat
  Rank :: pyval
  Rank_Delta :: string

record fetched =
  rows :: "row list"
  skill_dfs :: "skill_row list list"
  prev_ranks :: "string \<rightharpoonup> pyval"
  shown :: "message list"

definition dict_empty :: "profile \<Rightarrow> bool" where
  "dict_empty p =
     (totalSolved p = None \<and> easySolved p = None \<and> mediumSolved p = None \<and> hardSolved p = None
      \<and> ranking p = None \<and> matchedUserStats p = None \<and> other_keys p = [])"

definition get_or :: "'a option \<Rightarrow> 'a \<Rightarrow> 'a" where
  "get_or v d = (case v of None \<Rightarrow> d | Some x \<Rightarrow> x)"

definition fetch_user ::
  "(string \<Rightarrow> profile option \<times> message list) \<Rightarrow> (string \<Rightarrow> skill_row list \<times> message list)
     \<Rightarrow> string \<Rightarrow> fetched \<Rightarrow> pyerror + fetched" where
  "fetch_user get_prof get_skills user st =
     (let (prof, msgs) = get_prof user;
          st1 = st\<lparr>shown := shown st @ msgs\<rparr>
      in case prof of
           None \<Rightarrow> Inr (st1\<lparr>prev_ranks := (prev_ranks st1)(user \<mapsto> PStr ''N/A'')\<rparr>)
         | Some p \<Rightarrow>
             if dict_empty p then Inr (st1\<lparr>prev_ranks := (prev_ranks st1)(user \<mapsto> PStr ''N/A'')\<rparr>)
             else
               (case rank_change (get_or (prev_ranks st1 user) PNone) (get_or (ranking p) PNone) of
                  Inl e \<Rightarrow> Inl e
                | Inr delta \<Rightarrow>
                    (let (table, msgs2) = get_skills user
                     in Inr (st1\<lparr>rows := rows st1 @
                                 [\<lparr>Username = user,
                                   Total_Solved = get_or (totalSolved p) 0,
                                   Easy = get_or (easySolved p) 0,
                                   Medium = get_or (mediumSolved p) 0,
                                   Hard = get_or (hardSolved p) 0,
                                   Accuracy = compute_accuracy p,
                                   Rank = get_or (ranking p) (PStr ''N/A''),
                                   Rank_Delta = delta\<rparr>],
                               skill_dfs := skill_dfs st1 @ [table],
                               prev_ranks := (prev_ranks st1)(user \<mapsto> get_or (ranking p) PNone),
                               shown := shown st1 @ msgs2\<rparr>))))"

fun fetch_loop ::
  "(string \<Rightarrow> profile option \<times> message list) \<Rightarrow> (string \<Rightarrow> skill_row list \<times> message list)
     \<Rightarrow> string list \<Rightarrow> fetched \<Rightarrow> pyerror + fetched" where
  "fetch_loop get_prof get_skills [] st = Inr st"
| "fetch_loop get_prof get_skills (user # users) st =
     (case fetch_user get_prof get_skills user st of
        Inl e \<Rightarrow> Inl e
      | Inr st1 \<Rightarrow> fetch_loop get_prof get_skills users st1)"

text \<open>The state a run starts from: nothing fetched, the previous ranks of the session.\<close>

definition start :: "(string \<rightharpoonup> pyval) \<Rightarrow> fetched" where
  "start prev = \<lparr>rows = [], skill_dfs = [], prev_ranks = prev, shown = []\<rparr>"

subsection \<open>The leaderboard table\<close>


subsection \<open>The full heatmap matrix\<close>

text \<open>
  \<^verbatim>\<open>
  all_skills = pd.concat(skill_dfs, ignore_index=True) if skill_dfs else pd.DataFrame()
  ...
  if not all_skills.empty:
      all_skills["_sort"] = all_skills["Level"].map(LEVEL_ORDER).fillna(2)
      pivot = all_skills.pivot_table(
          index=["Skill", "Level", "_sort"],
          columns="Username",
          values="Problems Solved",
          aggfunc="sum",
          fill_value=0
      ).reset_index()
      pivot = pivot.sort_values("_sort").drop(columns="_sort")
      ...
  else:
      st.info("No skill data available.")
  \<close>
  \<open>pivot_table\<close> groups the rows by the three index columns and the username and
  sums \<open>Problems Solved\<close> in each group; the table has one row for each index key that
  occurs and one column for each username that occurs, both in ascending order, and a
  cell with no group holds \<open>fill_value\<close>. A pivot row is its key and its cells, in the
  order of the columns. \<open>reset_index\<close> turns the three index columns into columns of
  the table, and raises \<open>ValueError\<close> ("cannot insert ..., already exists") when the
  table already has a column of that name, which here is a username. \<open>sort_values\<close>, the library's sort of the pivot by the column
  \<open>_sort\<close>, is a parameter.
\<close>

definition all_skills_of :: "skill_row list list \<Rightarrow> skill_row list" where
  "all_skills_of dfs = concat dfs"

definition with_sort :: "skill_row \<Rightarrow> skill_rec" where
  "with_sort r =
     \<lparr>Level = Level r, Skill = Skill r, Problems_Solved = Problems_Solved r,
      Username' = Username' r, sort_col = get_or (LEVEL_ORDER (Level r)) 2\<rparr>"


definition group_of :: "skill_rec list \<Rightarrow> string \<times> string \<times> nat \<Rightarrow> string \<Rightarrow> skill_rec list" where
  "group_of recs key user =
     filter (\<lambda>r. (Skill r, Level r, sort_col r) = key \<and> Username' r = user) recs"

definition cell :: "skill_rec list \<Rightarrow> string \<times> string \<times> nat \<Rightarrow> string \<Rightarrow> int" where
  "cell recs key user =
     (let g = group_of recs key user in if g = [] then 0 else sum_list (map Problems_Solved g))"





section \<open>What is assumed of the library's sort\<close>

text \<open>
  \<open>DataFrame.sort_values\<close> is a parameter of the functions above. What its
  documentation promises is that the result holds the rows of the table, ordered by the
  key: \<open>sorts_by key f\<close> says so of a function \<open>f\<close>. The key of the skill table
  is the column \<open>_sort\<close>, then \<open>Problems Solved\<close> descending. \<open>level_rank\<close>
  is \<open>LEVEL_ORDER.get(level, 2)\<close>, and \<open>levels\<close> are the keys of
  \<open>LEVEL_ORDER\<close>.
\<close>

definition sorts_by :: "('a \<Rightarrow> 'k::linorder) \<Rightarrow> ('a list \<Rightarrow> 'a list) \<Rightarrow> bool" where
  "sorts_by key f \<longleftrightarrow> (\<forall>xs. mset (f xs) = mset xs \<and> sorted (map key (f xs)))"

definition skill_sort_key :: "skill_rec \<Rightarrow> nat \<times> int" where
  "skill_sort_key r = (sort_col r, - Problems_Solved r)"

definition level_rank :: "string \<Rightarrow> nat" where
  "level_rank level = get_or (LEVEL_ORDER level) 2"

definition levels :: "string set" where
  "levels = {''Advanced'', ''Intermediate'', ''Fundamental''}"




section \<open>Example inputs\<close>

text \<open>Concrete inputs on which the properties below are instantiated.\<close>

definition example_profile :: profile where
  "example_profile = \<lparr>totalSolved = Some 120, easySolved = Some 60, mediumSolved = Some 50,
     hardSolved = Some 10, ranking = Some (PInt 300), matchedUserStats = None, other_keys = []\<rparr>"

definition example_profile_api :: "string \<Rightarrow> pyerror + profile" where
  "example_profile_api v = (if v = ''alice'' then Inl Timeout else Inr example_profile)"

definition example_skill_api :: "string \<Rightarrow> pyerror + skill_data" where
  "example_skill_api v = Inl HTTPError"

text \<open>
  A reader of the username column that takes a column of decimal numerals for numbers
  and every other column for strings.
\<close>

definition all_digits :: "string \<Rightarrow> bool" where
  "all_digits s = (s \<noteq> [] \<and> list_all (\<lambda>c. c \<in> set ''0123456789'') s)"

definition example_read_csv :: "string list \<Rightarrow> cell list" where
  "example_read_csv texts =
     (if texts \<noteq> [] \<and> list_all all_digits texts then map NonStr texts else map Str texts)"

definition example_skill_data :: skill_data where
  "example_skill_data = SkillObj
     [(''fundamental'', SkillList [Entry (Some ''Array'') (Some 40), Entry (Some ''String'') (Some 55)]),
      (''unrated'', SkillList [Entry (Some ''Puzzle'') (Some 70)]),
      (''ADVANCED'', SkillList [Entry (Some ''Trie'') (Some 3), Entry None None]),
      (''notes'', NotAList),
      (''intermediate'', SkillList [Entry (Some ''Tree'') (Some 12)])]"





section \<open>Properties of the rank-delta calculator\<close>

lemma rank_change_unknown:
  "rank_change PNone new = Inr ''''" "rank_change (PStr ''N/A'') new = Inr ''''"
  by (simp_all add: rank_change_def pd_isna_def)

lemma rank_change_ints:
  "rank_change (PInt a) (PInt b) =
     Inr (if b < a then ''Up '' @ str_int (a - b)
          else if a < b then ''Down '' @ str_int (b - a)
          else ''No change'')"
  by (simp add: rank_change_def pd_isna_def)

lemma rank_change_examples:
  "rank_change (PInt 500) (PInt 300) = Inr ''Up 200''"
  "rank_change (PInt 300) (PInt 500) = Inr ''Down 200''"
  "rank_change (PInt 300) (PInt 300) = Inr ''No change''"
  "rank_change PNone (PInt 300) = Inr ''''"
  by (simp_all add: rank_change_def pd_isna_def str_int_def str_nat.simps digit_char_def)

lemma rank_change_raises_iff:
  "(\<exists>e. rank_change old new = Inl e) \<longleftrightarrow>
     (old \<noteq> PNone \<and> old \<noteq> PStr ''N/A'' \<and> \<not> (\<exists>a b. old = PInt a \<and> new = PInt b))"
  by (cases old; cases new) (auto simp: rank_change_def pd_isna_def)

text \<open>
  Claim C1. The claim: for every previous rank (an integer, \<open>"N/A"\<close> or unknown) and
  every current rank (an integer or \<open>"N/A"\<close>), \<open>rank_change\<close> returns one of the
  four strings rather than failing, also for a numeric previous rank with the current
  rank \<open>"N/A"\<close>. The code: with the previous rank 500 and the current rank \<open>"N/A"\<close>
  (or \<open>None\<close>, which is what \<open>prof.get("ranking")\<close> passes for a profile without a
  ranking), the subtraction \<open>old - new\<close> raises \<open>TypeError\<close>; only the previous
  rank is guarded.
\<close>

theorem rank_change_raises_on_unknown_current:
  "rank_change (PInt 500) (PStr ''N/A'') = Inl TypeError \<and> rank_change (PInt 500) PNone = Inl TypeError"
  by (simp add: rank_change_def pd_isna_def)

section \<open>Properties of the fetch loop\<close>

lemma fetch_user_no_profile:
  assumes "fst (get_prof user) = None"
  shows "fetch_user get_prof get_skills user st =
           Inr (st\<lparr>shown := shown st @ snd (get_prof user),
                   prev_ranks := (prev_ranks st)(user \<mapsto> PStr ''N/A'')\<rparr>)"
  using assms by (cases "get_prof user") (simp add: fetch_user_def)

lemma fetch_user_prev_other:
  assumes "fetch_user get_prof get_skills user st = Inr st1" "u \<noteq> user"
  shows "prev_ranks st1 u = prev_ranks st u"
  using assms
  by (cases "get_prof user")
     (auto simp: fetch_user_def Let_def split: option.splits if_splits sum.splits prod.splits)

lemma fetch_user_rows:
  assumes "fetch_user get_prof get_skills user st = Inr st1"
  shows "rows st1 = rows st \<or> (\<exists>r. rows st1 = rows st @ [r] \<and> Username r = user)"
  using assms
  by (cases "get_prof user")
     (auto simp: fetch_user_def Let_def split: option.splits if_splits sum.splits prod.splits)

lemma fetch_loop_prev_other:
  assumes "fetch_loop get_prof get_skills users st = Inr st1" "u \<notin> set users"
  shows "prev_ranks st1 u = prev_ranks st u"
  using assms
proof (induction users arbitrary: st)
  case Nil
  then show ?case by simp
next
  case (Cons x xs)
  from Cons.prems obtain st' where
    step: "fetch_user get_prof get_skills x st = Inr st'" and
    rest: "fetch_loop get_prof get_skills xs st' = Inr st1"
    by (auto split: sum.splits)
  from Cons.prems have "u \<noteq> x" "u \<notin> set xs" by auto
  with Cons.IH [OF rest] fetch_user_prev_other [OF step] show ?case by simp
qed

lemma fetch_loop_failed_prev:
  assumes "fetch_loop get_prof get_skills users st = Inr st1" "u \<in> set users"
    "fst (get_prof u) = None"
  shows "prev_ranks st1 u = Some (PStr ''N/A'')"
  using assms
proof (induction users arbitrary: st)
  case Nil
  then show ?case by simp
next
  case (Cons x xs)
  from Cons.prems obtain st' where
    step: "fetch_user get_prof get_skills x st = Inr st'" and
    rest: "fetch_loop get_prof get_skills xs st' = Inr st1"
    by (auto split: sum.splits)
  show ?case
  proof (cases "u \<in> set xs")
    case True
    then show ?thesis using Cons.IH [OF rest] Cons.prems(3) by simp
  next
    case False
    with Cons.prems have "u = x" by simp
    with step Cons.prems(3) have "prev_ranks st' u = Some (PStr ''N/A'')"
      by (auto simp: fetch_user_no_profile)
    with fetch_loop_prev_other [OF rest False] show ?thesis by simp
  qed
qed

lemma fetch_loop_rows_prefix:
  assumes "fetch_loop get_prof get_skills users st = Inr st1"
  shows "\<exists>more. rows st1 = rows st @ more"
  using assms
proof (induction users arbitrary: st)
  case Nil
  then show ?case by simp
next
  case (Cons x xs)
  from Cons.prems obtain st' where
    step: "fetch_user get_prof get_skills x st = Inr st'" and
    rest: "fetch_loop get_prof get_skills xs st' = Inr st1"
    by (auto split: sum.splits)
  from fetch_user_rows [OF step] Cons.IH [OF rest] show ?case by auto
qed

lemma fetch_user_after_failure:
  assumes "prev_ranks st user = Some (PStr ''N/A'')" "get_prof user = (Some p, msgs)" "\<not> dict_empty p"
  shows "\<exists>st1 r. fetch_user get_prof get_skills user st = Inr st1 \<and> rows st1 = rows st @ [r]
           \<and> Username r = user \<and> Rank_Delta r = ''''"
  using assms
  by (cases "get_skills user") (simp add: fetch_user_def get_or_def rank_change_def)

lemma find_append:
  "find P (xs @ ys) = (case find P xs of None \<Rightarrow> find P ys | Some x \<Rightarrow> Some x)"
  by (induction xs) auto

lemma fetch_loop_first_row:
  assumes "fetch_loop get_prof get_skills users st = Inr st1" "u \<in> set users"
    "prev_ranks st u = Some (PStr ''N/A'')" "find (\<lambda>r. Username r = u) (rows st) = None"
    "get_prof u = (Some p, msgs)" "\<not> dict_empty p"
  shows "\<exists>r. find (\<lambda>r. Username r = u) (rows st1) = Some r \<and> Rank_Delta r = ''''"
  using assms(1-4)
proof (induction users arbitrary: st)
  case Nil
  then show ?case by simp
next
  case (Cons x xs)
  from Cons.prems obtain st' where
    step: "fetch_user get_prof get_skills x st = Inr st'" and
    rest: "fetch_loop get_prof get_skills xs st' = Inr st1"
    by (auto split: sum.splits)
  show ?case
  proof (cases "x = u")
    case True
    from Cons.prems(3) assms(5,6) True
    have "\<exists>st1 r. fetch_user get_prof get_skills x st = Inr st1 \<and> rows st1 = rows st @ [r]
           \<and> Username r = x \<and> Rank_Delta r = []"
      by (intro fetch_user_after_failure) auto
    with step True obtain r where r: "rows st' = rows st @ [r]" "Username r = u" "Rank_Delta r = ''''"
      by auto
    from fetch_loop_rows_prefix [OF rest] obtain more where "rows st1 = rows st' @ more" ..
    with r Cons.prems(4) have "find (\<lambda>r. Username r = u) (rows st1) = Some r"
      by (simp add: find_append)
    with r show ?thesis by simp
  next
    case False
    with Cons.prems have in_xs: "u \<in> set xs" by auto
    from False fetch_user_prev_other [OF step, of u] Cons.prems(3)
    have p: "prev_ranks st' u = Some (PStr ''N/A'')" by simp
    from fetch_user_rows [OF step] False Cons.prems(4)
    have f: "find (\<lambda>r. Username r = u) (rows st') = None"
      by (auto simp: find_append)
    from Cons.IH [OF rest in_xs p f] show ?thesis .
  qed
qed

lemma example_profile_fields:
  "totalSolved example_profile = Some 120" "easySolved example_profile = Some 60"
  "mediumSolved example_profile = Some 50" "hardSolved example_profile = Some 10"
  "ranking example_profile = Some (PInt 300)" "\<not> dict_empty example_profile"
  by (simp_all add: example_profile_def dict_empty_def)

lemma example_profile_accuracy: "compute_accuracy example_profile = Finite 0"
proof -
  have "accuracy_body example_profile = Inl KeyError"
    by (simp add: accuracy_body_def example_profile_def)
  then show ?thesis by (simp add: compute_accuracy_def)
qed

text \<open>
  Claim C10. When a run of the fetch loop completes, the previous rank of a user whose
  profile fetch failed (\<open>get_profile\<close> returned \<open>None\<close>) is \<open>"N/A"\<close>, whatever it
  was before. In every later run that starts from these previous ranks, completes, and
  in which the profile of that user is fetched, the first row of the user has the empty
  string as its rank delta.
\<close>

theorem failed_fetch_forgets_rank:
  assumes "fetch_loop get_prof get_skills users st = Inr st1" "u \<in> set users"
    "fst (get_prof u) = None"
  shows "prev_ranks st1 u = Some (PStr ''N/A'') \<and>
         (\<forall>get_prof2 get_skills2 users2 st2 p msgs.
            fetch_loop get_prof2 get_skills2 users2 (start (prev_ranks st1)) = Inr st2 \<longrightarrow>
            u \<in> set users2 \<longrightarrow> get_prof2 u = (Some p, msgs) \<longrightarrow> \<not> dict_empty p \<longrightarrow>
            (\<exists>r. find (\<lambda>r. Username r = u) (rows st2) = Some r \<and> Rank_Delta r = ''''))"
proof (intro conjI allI impI)
  show known: "prev_ranks st1 u = Some (PStr ''N/A'')"
    using assms by (rule fetch_loop_failed_prev)
  fix get_prof2 get_skills2 users2 st2 p msgs
  assume run: "fetch_loop get_prof2 get_skills2 users2 (start (prev_ranks st1)) = Inr st2"
    and u: "u \<in> set users2" and p: "get_prof2 u = (Some p, msgs)" "\<not> dict_empty p"
  have a: "prev_ranks (start (prev_ranks st1)) u = Some (PStr ''N/A'')"
    using known by (simp add: start_def)
  have b: "find (\<lambda>r. Username r = u) (rows (start (prev_ranks st1))) = None"
    by (simp add: start_def)
  show "\<exists>r. find (\<lambda>r. Username r = u) (rows st2) = Some r \<and> Rank_Delta r = ''''"
    using run u a b p by (rule fetch_loop_first_row)
qed

theorem failed_fetch_forgets_rank_witness:
  "fetch_loop (\<lambda>v. get_profile v (Inl Timeout)) (\<lambda>v. ([], [])) [''alice'']
       (start [''alice'' \<mapsto> PInt 500])
     = Inr \<lparr>rows = [], skill_dfs = [], prev_ranks = [''alice'' \<mapsto> PStr ''N/A''],
            shown = [Profile_error ''alice'' Timeout]\<rparr>
   \<and> (case fetch_loop (\<lambda>v. get_profile v (Inr example_profile)) (\<lambda>v. ([], [])) [''alice'']
              (start [''alice'' \<mapsto> PStr ''N/A'']) of
         Inl e \<Rightarrow> False
       | Inr st2 \<Rightarrow> map Rank_Delta (rows st2) = [''''] \<and> map Rank (rows st2) = [PInt 300])"
proof -
  let ?st1 = "\<lparr>rows = [], skill_dfs = [], prev_ranks = [''alice'' \<mapsto> PStr ''N/A''],
            shown = [Profile_error ''alice'' Timeout]\<rparr>"
  have run1: "fetch_loop (\<lambda>v. get_profile v (Inl Timeout)) (\<lambda>v. ([], [])) [''alice'']
       (start [''alice'' \<mapsto> PInt 500]) = Inr ?st1"
    by (simp add: fetch_user_def get_profile_def start_def)
  have "accuracy_body example_profile = Inl KeyError"
    by (simp add: accuracy_body_def example_profile_def)
  then have acc: "compute_accuracy example_profile = Finite 0"
    by (simp add: compute_accuracy_def)
  have sel: "totalSolved example_profile = Some 120" "easySolved example_profile = Some 60"
    "mediumSolved example_profile = Some 50" "hardSolved example_profile = Some 10"
    "ranking example_profile = Some (PInt 300)" "\<not> dict_empty example_profile"
    by (simp_all add: example_profile_def dict_empty_def)
  have run2: "fetch_loop (\<lambda>v. get_profile v (Inr example_profile)) (\<lambda>v. ([], [])) [''alice'']
       (start (prev_ranks ?st1))
     = Inr \<lparr>rows = [\<lparr>Username = ''alice'', Total_Solved = 120, Easy = 60, Medium = 50, Hard = 10,
                      Accuracy = Finite 0, Rank = PInt 300, Rank_Delta = ''''\<rparr>],
            skill_dfs = [[]], prev_ranks = [''alice'' \<mapsto> PInt 300], shown = []\<rparr>"
    by (simp add: fetch_user_def get_profile_def start_def acc sel rank_change_def pd_isna_def
        get_or_def Let_def)
  from failed_fetch_forgets_rank [OF run1, of "''alice''"]
  have "prev_ranks ?st1 ''alice'' = Some (PStr ''N/A'')"
    by (simp add: get_profile_def)
  with run1 run2 show ?thesis by simp
qed

subsection \<open>Failed fetches\<close>

lemma fetch_loop_skips_failed:
  assumes "fst (get_prof u) = None"
  shows "fetch_loop get_prof get_skills (u # users) st =
         fetch_loop get_prof get_skills users
           (st\<lparr>shown := shown st @ snd (get_prof u),
               prev_ranks := (prev_ranks st)(u \<mapsto> PStr ''N/A'')\<rparr>)"
  using assms by (simp add: fetch_user_no_profile)

lemma skill_records_failed: "skill_records u (Inl e) = Inl e"
  by (simp add: skill_records_def)

text \<open>
  Claim C8. Whatever exception the request of a profile or of a skill table raises
  (no connection, timeout, HTTP status, a body that is not JSON), \<open>get_profile\<close>
  returns \<open>None\<close> and \<open>get_skill_table\<close> returns the empty table, each with the
  error message it shows, and neither raises. The fetch loop goes on with the remaining
  users: after a failed profile fetch from the state with the message and the previous
  rank \<open>"N/A"\<close>; after a failed skill fetch (where the profile was fetched and
  \<open>rank_change\<close> returned) from the state with the row of the user, the empty
  table and the message.
\<close>

theorem fetch_failure_is_no_data:
  "get_profile u (Inl e) = (None, [Profile_error u e])
   \<and> get_skill_table sort_values u (Inl e) = ([], [Skill_error u e])
   \<and> (profile_api u = Inl e \<longrightarrow>
        fetch_loop (\<lambda>v. get_profile v (profile_api v)) get_skills (u # users) st =
        fetch_loop (\<lambda>v. get_profile v (profile_api v)) get_skills users
          (st\<lparr>shown := shown st @ [Profile_error u e],
              prev_ranks := (prev_ranks st)(u \<mapsto> PStr ''N/A'')\<rparr>))
   \<and> (skill_api u = Inl e \<longrightarrow> get_prof u = (Some p, msgs) \<longrightarrow> \<not> dict_empty p \<longrightarrow>
        rank_change (get_or (prev_ranks st u) PNone) (get_or (ranking p) PNone) = Inr delta \<longrightarrow>
        fetch_loop get_prof (\<lambda>v. get_skill_table sort_values v (skill_api v)) (u # users) st =
        fetch_loop get_prof (\<lambda>v. get_skill_table sort_values v (skill_api v)) users
          (st\<lparr>rows := rows st @
                 [\<lparr>Username = u,
                   Total_Solved = get_or (totalSolved p) 0,
                   Easy = get_or (easySolved p) 0,
                   Medium = get_or (mediumSolved p) 0,
                   Hard = get_or (hardSolved p) 0,
                   Accuracy = compute_accuracy p,
                   Rank = get_or (ranking p) (PStr ''N/A''),
                   Rank_Delta = delta\<rparr>],
              skill_dfs := skill_dfs st @ [[]],
              prev_ranks := (prev_ranks st)(u \<mapsto> get_or (ranking p) PNone),
              shown := shown st @ msgs @ [Skill_error u e]\<rparr>))"
proof (intro conjI impI)
  show "get_profile u (Inl e) = (None, [Profile_error u e])"
    by (simp add: get_profile_def)
  show "get_skill_table sort_values u (Inl e) = ([], [Skill_error u e])"
    by (simp add: get_skill_table_def skill_records_def)
next
  assume "profile_api u = Inl e"
  then show "fetch_loop (\<lambda>v. get_profile v (profile_api v)) get_skills (u # users) st =
        fetch_loop (\<lambda>v. get_profile v (profile_api v)) get_skills users
          (st\<lparr>shown := shown st @ [Profile_error u e],
              prev_ranks := (prev_ranks st)(u \<mapsto> PStr ''N/A'')\<rparr>)"
    by (simp add: fetch_user_def get_profile_def)
next
  assume "skill_api u = Inl e" "get_prof u = (Some p, msgs)" "\<not> dict_empty p"
    "rank_change (get_or (prev_ranks st u) PNone) (get_or (ranking p) PNone) = Inr delta"
  then show "fetch_loop get_prof (\<lambda>v. get_skill_table sort_values v (skill_api v)) (u # users) st =
        fetch_loop get_prof (\<lambda>v. get_skill_table sort_values v (skill_api v)) users
          (st\<lparr>rows := rows st @
                 [\<lparr>Username = u,
                   Total_Solved = get_or (totalSolved p) 0,
                   Easy = get_or (easySolved p) 0,
                   Medium = get_or (mediumSolved p) 0,
                   Hard = get_or (hardSolved p) 0,
                   Accuracy = compute_accuracy p,
                   Rank = get_or (ranking p) (PStr ''N/A''),
                   Rank_Delta = delta\<rparr>],
              skill_dfs := skill_dfs st @ [[]],
              prev_ranks := (prev_ranks st)(u \<mapsto> get_or (ranking p) PNone),
              shown := shown st @ msgs @ [Skill_error u e]\<rparr>)"
    by (simp add: fetch_user_def get_skill_table_def skill_records_def)
qed

theorem fetch_failure_is_no_data_witness:
  "get_profile ''alice'' (Inl Timeout) = (None, [Profile_error ''alice'' Timeout])
   \<and> get_skill_table id ''bob'' (Inl HTTPError) = ([], [Skill_error ''bob'' HTTPError])
   \<and> fetch_loop (\<lambda>v. get_profile v (example_profile_api v))
        (\<lambda>v. get_skill_table id v (example_skill_api v)) [''alice'', ''bob''] (start Map.empty)
      = Inr \<lparr>rows = [\<lparr>Username = ''bob'', Total_Solved = 120, Easy = 60, Medium = 50, Hard = 10,
                       Accuracy = Finite 0, Rank = PInt 300, Rank_Delta = ''''\<rparr>],
             skill_dfs = [[]],
             prev_ranks = [''alice'' \<mapsto> PStr ''N/A'', ''bob'' \<mapsto> PInt 300],
             shown = [Profile_error ''alice'' Timeout, Skill_error ''bob'' HTTPError]\<rparr>"
proof -
  let ?gp = "\<lambda>v. get_profile v (example_profile_api v)"
  let ?gs = "\<lambda>v. get_skill_table id v (example_skill_api v)"
  note a = fetch_failure_is_no_data [where u = "''alice''" and e = Timeout and sort_values = id
      and profile_api = example_profile_api and get_skills = ?gs and users = "[''bob'']"
      and st = "start Map.empty" and skill_api = example_skill_api and get_prof = ?gp
      and p = example_profile and msgs = "[]" and delta = "[]"]
  let ?st1 = "(start Map.empty)\<lparr>shown := shown (start Map.empty) @ [Profile_error ''alice'' Timeout],
      prev_ranks := (prev_ranks (start Map.empty))(''alice'' \<mapsto> PStr ''N/A'')\<rparr>"
  note b = fetch_failure_is_no_data [where u = "''bob''" and e = HTTPError and sort_values = id
      and profile_api = example_profile_api and get_skills = ?gs and users = "[]"
      and st = ?st1 and skill_api = example_skill_api and get_prof = ?gp
      and p = example_profile and msgs = "[]" and delta = "[]"]
  have rc: "rank_change (get_or (prev_ranks ?st1 ''bob'') PNone) (get_or (ranking example_profile) PNone) = Inr ''''"
    by (simp add: start_def get_or_def rank_change_def pd_isna_def)
  have gp_bob: "?gp ''bob'' = (Some example_profile, [])"
    by (simp add: example_profile_api_def get_profile_def)
  have step1: "fetch_loop ?gp ?gs [''alice'', ''bob''] (start Map.empty) = fetch_loop ?gp ?gs [''bob''] ?st1"
    using a by (simp add: example_profile_api_def)
  have step2: "fetch_loop ?gp ?gs [''bob''] ?st1 =
      Inr \<lparr>rows = [\<lparr>Username = ''bob'', Total_Solved = 120, Easy = 60, Medium = 50, Hard = 10,
                       Accuracy = Finite 0, Rank = PInt 300, Rank_Delta = ''''\<rparr>],
             skill_dfs = [[]],
             prev_ranks = [''alice'' \<mapsto> PStr ''N/A'', ''bob'' \<mapsto> PInt 300],
             shown = [Profile_error ''alice'' Timeout, Skill_error ''bob'' HTTPError]\<rparr>"
    using b rc gp_bob example_profile_fields
    by (simp add: example_skill_api_def start_def get_or_def example_profile_accuracy)
  from a have c1: "get_profile ''alice'' (Inl Timeout) = (None, [Profile_error ''alice'' Timeout])"
    by (rule conjunct1)
  from b have c2: "get_skill_table id ''bob'' (Inl HTTPError) = ([], [Skill_error ''bob'' HTTPError])"
    by (elim conjE)
  from c1 c2 step1 step2 show ?thesis by (simp only: simp_thms)
qed

section \<open>Properties of the tracked-user store\<close>

lemma strip_examples:
  "strip ''123'' = ''123''" "strip '' alice '' = ''alice''"
  by (simp_all add: strip_def is_space_def)

lemma load_users_file: "snd (load_users read_csv file) = init_csv file"
  by (simp add: load_users_def init_csv_def split: option.splits)

lemma add_user_present:
  assumes "strip username = [] \<or> Str (strip username) \<in> set (map fst (fst (load_users read_csv file)))"
  shows "add_user read_csv username now file = (False, init_csv file)"
proof -
  obtain df file1 where l: "load_users read_csv file = (df, file1)"
    by (cases "load_users read_csv file")
  with load_users_file [of read_csv "file"] have f: "file1 = init_csv file"
    by simp
  from assms l have "strip username = [] \<or> Str (strip username) \<in> set (map fst df)"
    by simp
  then show ?thesis
    unfolding add_user_def l f by (auto simp: Let_def)
qed

text \<open>
  Where the library reads every username back as the string that was written, a second
  \<open>add_user\<close> of a username changes nothing and returns \<open>False\<close>.
\<close>

lemma add_user_twice_when_read_as_text:
  assumes "\<And>texts. read_csv texts = map Str texts"
  shows "add_user read_csv username now2 (snd (add_user read_csv username now1 file)) =
         (False, snd (add_user read_csv username now1 file))"
proof -
  have load: "\<And>lines. load_users read_csv (Some lines) = (map (\<lambda>l. (Str (fst l), snd l)) lines, Some lines)"
    by (simp add: load_users_def init_csv_def assms zip_map_map zip_same_conv_map)
  obtain lines where init: "init_csv file = Some lines"
    by (cases "file") (simp_all add: init_csv_def)
  then have load0: "load_users read_csv file = (map (\<lambda>l. (Str (fst l), snd l)) lines, Some lines)"
    using load [of lines] by (cases "file") (simp_all add: load_users_def init_csv_def)
  show ?thesis
  proof (cases "strip username \<noteq> [] \<and> Str (strip username) \<notin> set (map fst (fst (load_users read_csv file)))")
    case True
    then have first: "add_user read_csv username now1 file =
        (True, Some (lines @ [(strip username, now1)]))"
      using load0 by (simp add: add_user_def save_users_def o_def image_image)
    have "Str (strip username) \<in> set (map fst (fst (load_users read_csv (Some (lines @ [(strip username, now1)])))))"
      by (simp add: load)
    then show ?thesis
      unfolding first by (simp add: add_user_present init_csv_def)
  next
    case False
    then have first: "add_user read_csv username now1 file = (False, Some lines)"
      using add_user_present [of username read_csv "file" now1] init by auto
    from False load0 load [of lines]
    have "strip username = [] \<or> Str (strip username) \<in> set (map fst (fst (load_users read_csv (Some lines))))"
      by auto
    then show ?thesis
      unfolding first by (simp add: add_user_present init_csv_def)
  qed
qed

text \<open>
  Claim C7. The claim: for every username already in the store, a second \<open>add_user\<close>
  leaves the rows unchanged and returns \<open>False\<close>. The code: the store is read back
  with \<open>pd.read_csv\<close>, which reads a column of numerals as numbers; the string
  \<open>"123"\<close> then equals no cell, so the second \<open>add_user("123")\<close> on a fresh store
  appends a second row and returns \<open>True\<close>.
\<close>

theorem add_user_twice_numeric_username:
  assumes "read_csv [] = []" "read_csv [''123''] = [NonStr ''123'']"
  shows "add_user read_csv ''123'' t1 None = (True, Some [(''123'', t1)])
         \<and> add_user read_csv ''123'' t2 (Some [(''123'', t1)]) =
             (True, Some [(''123'', t1), (''123'', t2)])"
  using assms
  by (simp add: add_user_def load_users_def init_csv_def save_users_def strip_examples)

theorem add_user_twice_numeric_username_witness:
  "example_read_csv [] = [] \<and> example_read_csv [''123''] = [NonStr ''123'']
   \<and> add_user example_read_csv ''123'' 5 None = (True, Some [(''123'', 5)])
   \<and> add_user example_read_csv ''123'' 7 (Some [(''123'', 5)]) =
       (True, Some [(''123'', 5), (''123'', 7)])"
proof -
  have r: "example_read_csv [] = []" "example_read_csv [''123''] = [NonStr ''123'']"
    by (simp_all add: example_read_csv_def all_digits_def)
  from add_user_twice_numeric_username [OF r, of 5 7] r show ?thesis by simp
qed

section \<open>Properties of the skill fetcher\<close>

lemma LEVEL_ORDER_None: "LEVEL_ORDER level = None \<longleftrightarrow> level \<notin> levels"
  by (simp add: LEVEL_ORDER_def levels_def)

lemma LEVEL_ORDER_values:
  "LEVEL_ORDER ''Advanced'' = Some 0" "LEVEL_ORDER ''Intermediate'' = Some 1"
  "LEVEL_ORDER ''Fundamental'' = Some 2"
  by (simp_all add: LEVEL_ORDER_def)

lemma normalize_level_in: "normalize_level level_raw \<in> levels"
  by (simp add: normalize_level_def Let_def LEVEL_ORDER_None) (simp add: levels_def)

lemma capitalize_examples:
  "capitalize ''unrated'' = ''Unrated''" "capitalize ''ADVANCED'' = ''Advanced''"
  "capitalize ''fundamental'' = ''Fundamental''" "capitalize ''intermediate'' = ''Intermediate''"
  "capitalize ''notes'' = ''Notes''"
  by code_simp+

lemma normalize_level_examples:
  "normalize_level ''unrated'' = ''Fundamental''" "normalize_level ''ADVANCED'' = ''Advanced''"
  "normalize_level ''fundamental'' = ''Fundamental''" "normalize_level ''intermediate'' = ''Intermediate''"
  unfolding normalize_level_def capitalize_examples by (simp_all add: LEVEL_ORDER_def)

lemma bucket_records_fields:
  assumes "bucket_records username level ss = Inr recs" "r \<in> set recs"
  shows "Level r = level \<and> Username' r = username \<and> sort_col r = level_rank level"
  using assms
  by (induction username level ss arbitrary: recs rule: bucket_records.induct)
     (auto simp: level_rank_def get_or_def split: sum.splits)

lemma data_records_fields:
  assumes "data_records username items = Inr recs" "r \<in> set recs"
  shows "Level r \<in> levels \<and> Username' r = username \<and> sort_col r = level_rank (Level r)"
  using assms
proof (induction username items arbitrary: recs rule: data_records.induct)
  case (1 username)
  then show ?case by simp
next
  case (2 username level_raw skills rest)
  show ?case
  proof (cases skills)
    case NotAList
    with 2 show ?thesis by simp
  next
    case (SkillList ss)
    with "2.prems" obtain recs1 recs2 where
      b: "bucket_records username (normalize_level level_raw) ss = Inr recs1" and
      d: "data_records username rest = Inr recs2" and recs: "recs = recs1 @ recs2"
      by (auto split: sum.splits)
    from "2.prems"(2) recs consider (here) "r \<in> set recs1" | (later) "r \<in> set recs2" by auto
    then show ?thesis
    proof cases
      case here
      from bucket_records_fields [OF b here] normalize_level_in [of level_raw] show ?thesis by simp
    next
      case later
      from "2.IH" SkillList b d later show ?thesis by auto
    qed
  qed
qed

lemma skill_records_fields:
  assumes "skill_records username response = Inr recs" "r \<in> set recs"
  shows "Level r \<in> levels \<and> Username' r = username \<and> sort_col r = level_rank (Level r)"
  using assms data_records_fields
  by (auto simp: skill_records_def split: sum.splits skill_data.splits)

lemma truncate_fields [simp]:
  "Level (skill_row.truncate r) = Level r" "Skill (skill_row.truncate r) = Skill r"
  "Problems_Solved (skill_row.truncate r) = Problems_Solved r"
  "Username' (skill_row.truncate r) = Username' r"
  by (simp_all add: skill_row.truncate_def)

lemma sorts_by_set: "sorts_by key f \<Longrightarrow> set (f xs) = set xs"
  by (metis sorts_by_def set_mset_mset)

lemma get_skill_table_rows:
  assumes "sorts_by skill_sort_key sort_values" "row \<in> set (fst (get_skill_table sort_values username response))"
  shows "\<exists>recs r. skill_records username response = Inr recs \<and> r \<in> set recs \<and> row = skill_row.truncate r"
  using assms sorts_by_set [OF assms(1)]
  by (auto simp: get_skill_table_def split: sum.splits if_splits)

lemma sorts_by_sort_key: "sorts_by key (sort_key key)"
  by (simp add: sorts_by_def)

lemma example_skill_records:
  "skill_records ''alice'' (Inr example_skill_data) =
     Inr [\<lparr>Level = ''Fundamental'', Skill = ''Array'', Problems_Solved = 40, Username' = ''alice'', sort_col = 2\<rparr>,
          \<lparr>Level = ''Fundamental'', Skill = ''String'', Problems_Solved = 55, Username' = ''alice'', sort_col = 2\<rparr>,
          \<lparr>Level = ''Fundamental'', Skill = ''Puzzle'', Problems_Solved = 70, Username' = ''alice'', sort_col = 2\<rparr>,
          \<lparr>Level = ''Advanced'', Skill = ''Trie'', Problems_Solved = 3, Username' = ''alice'', sort_col = 0\<rparr>,
          \<lparr>Level = ''Advanced'', Skill = ''Unknown'', Problems_Solved = 0, Username' = ''alice'', sort_col = 0\<rparr>,
          \<lparr>Level = ''Intermediate'', Skill = ''Tree'', Problems_Solved = 12, Username' = ''alice'', sort_col = 1\<rparr>]"
  by (simp add: skill_records_def example_skill_data_def normalize_level_examples LEVEL_ORDER_values)

lemma example_skill_table:
  "fst (get_skill_table (sort_key skill_sort_key) ''alice'' (Inr example_skill_data)) =
     [\<lparr>Level = ''Advanced'', Skill = ''Trie'', Problems_Solved = 3, Username' = ''alice''\<rparr>,
      \<lparr>Level = ''Advanced'', Skill = ''Unknown'', Problems_Solved = 0, Username' = ''alice''\<rparr>,
      \<lparr>Level = ''Intermediate'', Skill = ''Tree'', Problems_Solved = 12, Username' = ''alice''\<rparr>,
      \<lparr>Level = ''Fundamental'', Skill = ''Puzzle'', Problems_Solved = 70, Username' = ''alice''\<rparr>,
      \<lparr>Level = ''Fundamental'', Skill = ''String'', Problems_Solved = 55, Username' = ''alice''\<rparr>,
      \<lparr>Level = ''Fundamental'', Skill = ''Array'', Problems_Solved = 40, Username' = ''alice''\<rparr>]"
  by (simp add: get_skill_table_def example_skill_records skill_sort_key_def skill_row.truncate_def)

text \<open>
  Claim C4. The level of a record is the capitalized level name of the payload when
  that is one of \<open>Advanced\<close>, \<open>Intermediate\<close>, \<open>Fundamental\<close>, and
  \<open>Fundamental\<close> otherwise; so it is one of the three names, for every level name
  of the payload (\<open>unrated\<close> gives \<open>Fundamental\<close>), and every row of the table that
  \<open>get_skill_table\<close> returns has such a level.
\<close>

theorem skill_levels_normalized:
  "normalize_level level_raw =
     (if capitalize level_raw \<in> levels then capitalize level_raw else ''Fundamental'')
   \<and> normalize_level level_raw \<in> levels
   \<and> levels = {''Advanced'', ''Intermediate'', ''Fundamental''}
   \<and> normalize_level ''unrated'' = ''Fundamental''
   \<and> (sorts_by skill_sort_key sort_values \<longrightarrow>
        (\<forall>row \<in> set (fst (get_skill_table sort_values username response)). Level row \<in> levels))"
proof (intro conjI impI ballI)
  show "normalize_level level_raw =
     (if capitalize level_raw \<in> levels then capitalize level_raw else ''Fundamental'')"
    by (simp add: normalize_level_def Let_def LEVEL_ORDER_None)
  show "normalize_level level_raw \<in> levels" by (rule normalize_level_in)
  show "levels = {''Advanced'', ''Intermediate'', ''Fundamental''}" by (rule levels_def)
  show "normalize_level ''unrated'' = ''Fundamental''" by (rule normalize_level_examples)
next
  fix row
  assume "sorts_by skill_sort_key sort_values"
    "row \<in> set (fst (get_skill_table sort_values username response))"
  from get_skill_table_rows [OF this] skill_records_fields
  show "Level row \<in> levels" by fastforce
qed

theorem skill_levels_normalized_witness:
  "sorts_by skill_sort_key (sort_key skill_sort_key)
   \<and> map Level (fst (get_skill_table (sort_key skill_sort_key) ''alice'' (Inr example_skill_data))) =
       [''Advanced'', ''Advanced'', ''Intermediate'', ''Fundamental'', ''Fundamental'', ''Fundamental'']
   \<and> list_all (\<lambda>row. Level row \<in> levels)
        (fst (get_skill_table (sort_key skill_sort_key) ''alice'' (Inr example_skill_data)))"
proof -
  have s: "sorts_by skill_sort_key (sort_key skill_sort_key)" by (rule sorts_by_sort_key)
  from skill_levels_normalized [of _ "sort_key skill_sort_key" "''alice''" "Inr example_skill_data"] s
  have "\<forall>row \<in> set (fst (get_skill_table (sort_key skill_sort_key) ''alice'' (Inr example_skill_data))).
          Level row \<in> levels"
    by blast
  then have "list_all (\<lambda>row. Level row \<in> levels)
        (fst (get_skill_table (sort_key skill_sort_key) ''alice'' (Inr example_skill_data)))"
    by (simp only: list_all_iff)
  with s show ?thesis by (simp add: example_skill_table)
qed

text \<open>
  Claim C5. The table that \<open>get_skill_table\<close> returns is ordered by the rank of the
  level (\<open>Advanced\<close> 0, \<open>Intermediate\<close> 1, \<open>Fundamental\<close> 2) and, within a
  level, by \<open>Problems Solved\<close> descending; it holds the records built from the
  payload, and nothing is said of the order of rows that agree on both keys.
\<close>

theorem skill_table_sorted:
  assumes "sorts_by skill_sort_key sort_values"
  shows "sorted (map (\<lambda>row. (level_rank (Level row), - Problems_Solved row))
           (fst (get_skill_table sort_values username response)))
         \<and> (\<forall>recs. skill_records username response = Inr recs \<longrightarrow>
              mset (fst (get_skill_table sort_values username response)) =
              mset (map skill_row.truncate recs))"
proof (cases "skill_records username response")
  case (Inl e)
  then show ?thesis by (simp add: get_skill_table_def)
next
  case (Inr recs)
  from assms have m: "mset (sort_values recs) = mset recs"
    and s: "sorted (map skill_sort_key (sort_values recs))"
    by (simp_all add: sorts_by_def)
  have "map (\<lambda>row. (level_rank (Level row), - Problems_Solved row))
          (map skill_row.truncate (sort_values recs)) = map skill_sort_key (sort_values recs)"
    unfolding map_map
  proof (rule map_cong [OF refl])
    fix r
    assume "r \<in> set (sort_values recs)"
    with sorts_by_set [OF assms, of recs] have "r \<in> set recs" by simp
    from skill_records_fields [OF Inr this]
    show "((\<lambda>row. (level_rank (Level row), - Problems_Solved row)) \<circ> skill_row.truncate) r
            = skill_sort_key r"
      by (simp add: skill_sort_key_def)
  qed
  then have "sorted (map (\<lambda>row. (level_rank (Level row), - Problems_Solved row))
          (map skill_row.truncate (sort_values recs)))"
    using s by (simp only:)
  with m Inr show ?thesis
    by (simp add: get_skill_table_def del: map_map)
qed

theorem skill_table_sorted_witness:
  "sorts_by skill_sort_key (sort_key skill_sort_key)
   \<and> sorted (map (\<lambda>row. (level_rank (Level row), - Problems_Solved row))
        (fst (get_skill_table (sort_key skill_sort_key) ''alice'' (Inr example_skill_data))))
   \<and> map (\<lambda>row. (Level row, Skill row, Problems_Solved row))
        (fst (get_skill_table (sort_key skill_sort_key) ''alice'' (Inr example_skill_data))) =
       [(''Advanced'', ''Trie'', 3), (''Advanced'', ''Unknown'', 0), (''Intermediate'', ''Tree'', 12),
        (''Fundamental'', ''Puzzle'', 70), (''Fundamental'', ''String'', 55), (''Fundamental'', ''Array'', 40)]"
proof -
  have s: "sorts_by skill_sort_key (sort_key skill_sort_key)" by (rule sorts_by_sort_key)
  from skill_table_sorted [OF s, of "''alice''" "Inr example_skill_data"]
  have "sorted (map (\<lambda>row. (level_rank (Level row), - Problems_Solved row))
        (fst (get_skill_table (sort_key skill_sort_key) ''alice'' (Inr example_skill_data))))"
    by (rule conjunct1)
  with s show ?thesis by (simp add: example_skill_table)
qed

section \<open>Properties of the leaderboard\<close>






section \<open>Properties of the full heatmap matrix\<close>

lemma with_sort_fields [simp]:
  "Level (with_sort r) = Level r" "Skill (with_sort r) = Skill r"
  "Problems_Solved (with_sort r) = Problems_Solved r" "Username' (with_sort r) = Username' r"
  "sort_col (with_sort r) = level_rank (Level r)"
  by (simp_all add: with_sort_def level_rank_def)








end
